theory Spec2Isabelle
  imports Main
begin

section \<open>JavaScript values at the surface of the worker\<close>

text \<open>
  The worker reads optional strings and booleans from the request, the environment and
  the token payload. An optional value is an \<open>option\<close>: \<open>None\<close> stands for
  \<open>undefined\<close> on the way in and for \<open>null\<close> on the way out. A string is falsy
  when it is absent or empty, a boolean when it is absent or false.
\<close>

definition truthy :: "string option \<Rightarrow> bool" where
  "truthy s = (case s of None \<Rightarrow> False | Some v \<Rightarrow> v \<noteq> [])"

definition truthy_flag :: "bool option \<Rightarrow> bool" where
  "truthy_flag b = (case b of None \<Rightarrow> False | Some v \<Rightarrow> v)"

text \<open>The idiom \<^verbatim>\<open>x || null\<close> on an optional string.\<close>

definition or_null :: "string option \<Rightarrow> string option" where
  "or_null s = (if truthy s then s else None)"

text \<open>
  \<^verbatim>\<open>s.split(' ')\<close>: the string is cut at every single space character; empty pieces
  are kept, and the result always has at least one piece.
\<close>

fun split_space :: "string \<Rightarrow> string list" where
  "split_space [] = [[]]"
| "split_space (c # cs) =
     (if c = CHR '' '' then [] # split_space cs
      else (case split_space cs of
              [] \<Rightarrow> [[c]]
            | p # ps \<Rightarrow> (c # p) # ps))"

text \<open>\<^verbatim>\<open>xs.filter(Boolean)\<close> on optional strings, and \<^verbatim>\<open>xs.join(',')\<close>.\<close>

fun filter_Boolean :: "string option list \<Rightarrow> string list" where
  "filter_Boolean [] = []"
| "filter_Boolean (None # xs) = filter_Boolean xs"
| "filter_Boolean (Some v # xs) = (if v = [] then filter_Boolean xs else v # filter_Boolean xs)"

fun join_comma :: "string list \<Rightarrow> string" where
  "join_comma [] = []"
| "join_comma [x] = x"
| "join_comma (x # y # ys) = x @ '','' @ join_comma (y # ys)"

text \<open>A thrown value: an \<^verbatim>\<open>Error\<close> with its message, or anything else.\<close>

datatype thrown = Error string | NonError


section \<open>Types of the worker (types.ts)\<close>

record Env =
  SUPABASE_URL :: "string option"
  SUPABASE_SERVICE_ROLE_KEY :: "string option"

record SupabaseJWTPayload =
  sub :: "string option"
  email :: "string option"
  role :: "string option"
  iss :: "string option"
  aud :: "string option"
  exp :: "int option"
  iat :: "int option"

text \<open>
  The body of \<^verbatim>\<open>/reports/complete\<close>. The handler also reads \<^verbatim>\<open>game_name\<close> and
  \<^verbatim>\<open>offender_name\<close>. \<open>body_other\<close> holds every further member of the JSON object
  (a client may send \<^verbatim>\<open>user_id\<close>, for one); the handler reads none of them. The two
  clip offsets are numbers that are only passed through, so their type is a parameter.
\<close>

record 'n ReportCompleteRequest =
  body_report_id :: "string option"
  body_game_name :: "string option"
  body_offender_name :: "string option"
  body_description :: "string option"
  body_targeted :: "bool option"
  body_desired_action :: "string option"
  body_recording_start_utc :: "string option"
  body_flag_utc :: "string option"
  body_clip_start_offset_sec :: "'n option"
  body_clip_end_offset_sec :: "'n option"
  body_audio_path :: "string option"
  body_microphone_path :: "string option"
  body_video_path :: "string option"
  body_other :: "(string \<times> string) list"

record ReportInitRequest =
  has_microphone :: "bool option"
  has_video :: "bool option"

text \<open>The object literal \<^verbatim>\<open>reportData\<close> that \<^verbatim>\<open>/reports/complete\<close> inserts.\<close>

record 'n ReportData =
  row_id :: string
  row_user_id :: string
  row_game_name :: "string option"
  row_offender_name :: "string option"
  row_description :: "string option"
  row_targeted :: "bool option"
  row_desired_action :: "string option"
  row_recording_start_utc :: "string option"
  row_flag_utc :: "string option"
  row_clip_start_offset_sec :: "'n option"
  row_clip_end_offset_sec :: "'n option"
  row_audio_path :: "string option"
  row_video_path :: "string option"
  row_forwarded_to_modulate :: bool


section \<open>The collaborators: key sets, token library, storage, database\<close>

text \<open>
  \<^verbatim>\<open>createRemoteJWKSet(url)\<close> gives a key-set resolver bound to \<open>url\<close>. It only
  constructs the resolver: the key set is downloaded later, by the resolver, when the
  token library uses it during \<^verbatim>\<open>jwtVerify\<close>.
\<close>

datatype JWKS = RemoteJWKSet string

definition createRemoteJWKSet :: "string \<Rightarrow> JWKS" where
  "createRemoteJWKSet jwksUrl = RemoteJWKSet jwksUrl"

record JWTVerifyOptions =
  issuer :: string
  audience :: string

text \<open>
  What \<^verbatim>\<open>createSignedUploadUrl\<close> resolves to: \<^verbatim>\<open>{ data, error }\<close>, where the data
  carry the signed URL, the upload token and the path. The token is a string in the
  storage client's type, so \<^verbatim>\<open>token ?? null\<close> is the token.
\<close>

record SignedUpload =
  signedUrl :: string
  token :: string
  path :: string

record SignedUploadResult =
  data :: "SignedUpload option"
  error :: "string option"

text \<open>
  The answers of the outside world during one request: the clock, the random UUID
  generator, the platform's \<^verbatim>\<open>new URL(...)\<close> (which throws on a string that is not an
  absolute URL and otherwise gives the URL), the token library's \<^verbatim>\<open>jwtVerify\<close>
  (which throws or resolves to a payload) together with the number of downloads of the
  key set that its resolver makes during that call, the storage service, and the
  database insert (which resolves to an error message or to none).
\<close>

record 'n services =
  date_now :: int
  randomUUID :: string
  new_URL :: "string \<Rightarrow> thrown + string"
  jwtVerify :: "string \<Rightarrow> JWKS \<Rightarrow> JWTVerifyOptions \<Rightarrow> thrown + SupabaseJWTPayload"
  jwks_downloads :: "string \<Rightarrow> JWKS \<Rightarrow> nat"
  createSignedUploadUrl :: "string \<Rightarrow> string \<Rightarrow> SignedUploadResult"
  insert_report :: "'n ReportData list \<Rightarrow> 'n ReportData \<Rightarrow> string option"

text \<open>The calls the worker makes to its collaborators, in order.\<close>

datatype 'n call =
    CreateRemoteJWKSet string
  | JwtVerify string
  | FetchJWKS JWKS
  | RandomUUID string
  | CreateSignedUploadUrl string string
  | InsertReport "'n ReportData"

record JWKSCache =
  jwks :: "JWKS option"
  timestamp :: int

text \<open>
  The state that outlives a request: the module-level key-set cache, the rows of the
  \<^verbatim>\<open>reports\<close> table, and the calls made so far. An insert that reports no error
  has added its row to the table; one that reports an error has added nothing.
\<close>

record 'n world =
  jwksCache :: JWKSCache
  reports_table :: "'n ReportData list"
  calls :: "'n call list"

definition initial_world :: "'n world" where
  "initial_world = \<lparr>jwksCache = \<lparr>jwks = None, timestamp = 0\<rparr>, reports_table = [], calls = []\<rparr>"

definition record_call :: "'n call \<Rightarrow> 'n world \<Rightarrow> 'n world" where
  "record_call c w = w\<lparr>calls := calls w @ [c]\<rparr>"

definition record_downloads :: "nat \<Rightarrow> JWKS \<Rightarrow> 'n world \<Rightarrow> 'n world" where
  "record_downloads n keys w = w\<lparr>calls := calls w @ replicate n (FetchJWKS keys)\<rparr>"


section \<open>auth.ts\<close>

definition JWKS_CACHE_TTL :: int where
  "JWKS_CACHE_TTL = 3600000"

definition getJWKS ::
  "'n services \<Rightarrow> string \<Rightarrow> 'n world \<Rightarrow> (thrown + JWKS) \<times> 'n world" where
  "getJWKS sv supabaseUrl w =
     (let now = date_now sv in
      case jwks (jwksCache w) of
        None \<Rightarrow>
          (case new_URL sv (supabaseUrl @ ''/auth/v1/.well-known/jwks.json'') of
             Inl e \<Rightarrow> (Inl e, w)
           | Inr jwksUrl \<Rightarrow>
               (let k = createRemoteJWKSet jwksUrl
                in (Inr k, record_call (CreateRemoteJWKSet jwksUrl)
                             (w\<lparr>jwksCache := \<lparr>jwks = Some k, timestamp = now\<rparr>\<rparr>))))
      | Some cached \<Rightarrow>
          if now - timestamp (jwksCache w) > JWKS_CACHE_TTL then
            (case new_URL sv (supabaseUrl @ ''/auth/v1/.well-known/jwks.json'') of
               Inl e \<Rightarrow> (Inl e, w)
             | Inr jwksUrl \<Rightarrow>
                 (let k = createRemoteJWKSet jwksUrl
                  in (Inr k, record_call (CreateRemoteJWKSet jwksUrl)
                               (w\<lparr>jwksCache := \<lparr>jwks = Some k, timestamp = now\<rparr>\<rparr>))))
          else (Inr cached, w))"

text \<open>The \<^verbatim>\<open>catch\<close> block of \<^verbatim>\<open>verifyToken\<close>.\<close>

fun rethrow :: "thrown \<Rightarrow> thrown" where
  "rethrow (Error message) = Error (''JWT verification failed: '' @ message)"
| "rethrow NonError = Error ''JWT verification failed''"

definition verifyToken ::
  "'n services \<Rightarrow> string option \<Rightarrow> string \<Rightarrow> 'n world
    \<Rightarrow> (thrown + string \<times> SupabaseJWTPayload) \<times> 'n world" where
  "verifyToken sv authHeader supabaseUrl w =
     (case authHeader of
        None \<Rightarrow> (Inl (Error ''Missing Authorization header''), w)
      | Some h \<Rightarrow>
          if h = [] then (Inl (Error ''Missing Authorization header''), w)
          else
            (let parts = split_space h in
             if length parts \<noteq> 2 \<or> parts ! 0 \<noteq> ''Bearer'' then
               (Inl (Error ''Invalid Authorization header format. Expected: Bearer <token>''), w)
             else
               (let tok = parts ! 1 in
                case getJWKS sv supabaseUrl w of
                  (Inl e, w1) \<Rightarrow> (Inl (rethrow e), w1)
                | (Inr keys, w1) \<Rightarrow>
                    (let w2 = record_downloads (jwks_downloads sv tok keys) keys
                                (record_call (JwtVerify tok) w1)
                     in case jwtVerify sv tok keys
                               \<lparr>issuer = supabaseUrl @ ''/auth/v1'', audience = ''authenticated''\<rparr> of
                          Inl e \<Rightarrow> (Inl (rethrow e), w2)
                        | Inr payload \<Rightarrow>
                            (case sub payload of
                               None \<Rightarrow> (Inl (rethrow (Error ''Token missing sub claim'')), w2)
                             | Some s \<Rightarrow>
                                 if s = [] then
                                   (Inl (rethrow (Error ''Token missing sub claim'')), w2)
                                 else (Inr (s, payload), w2))))))"

text \<open>The variables that the middleware sets on the request context.\<close>

record ctx_vars =
  userId :: "string option"
  userPayload :: "SupabaseJWTPayload option"

record InitResponse =
  res_report_id :: string
  res_audio_upload_url :: string
  res_audio_upload_token :: string
  res_audio_path :: string
  res_microphone_upload_url :: "string option"
  res_microphone_upload_token :: "string option"
  res_microphone_path :: "string option"
  res_video_upload_url :: "string option"
  res_video_upload_token :: "string option"
  res_video_path :: "string option"

text \<open>
  A response: \<^verbatim>\<open>{error}\<close> or \<^verbatim>\<open>{error, details}\<close> with a status, the answer
  \<^verbatim>\<open>{error: 'Internal server error', message}\<close> of the application's error handler
  (500), the grant bundle of \<^verbatim>\<open>/reports/init\<close> (200), or \<^verbatim>\<open>{ok: true, report_id}\<close>
  (201).
\<close>

datatype response =
    ErrorResponse nat string "string option"
  | InternalServerError string
  | InitOk InitResponse
  | CompleteOk string

fun status :: "response \<Rightarrow> nat" where
  "status (ErrorResponse code msg details) = code"
| "status (InternalServerError message) = 500"
| "status (InitOk r) = 200"
| "status (CompleteOk rid) = 201"

definition authMiddleware ::
  "'n services \<Rightarrow> Env \<Rightarrow> string option \<Rightarrow> (ctx_vars \<Rightarrow> 'n world \<Rightarrow> response \<times> 'n world)
    \<Rightarrow> 'n world \<Rightarrow> response \<times> 'n world" where
  "authMiddleware sv env authHeader next w =
     (case SUPABASE_URL env of
        None \<Rightarrow> (ErrorResponse 500 ''Server configuration error: Missing SUPABASE_URL'' None, w)
      | Some supabaseUrl \<Rightarrow>
          if supabaseUrl = [] then
            (ErrorResponse 500 ''Server configuration error: Missing SUPABASE_URL'' None, w)
          else
            (case verifyToken sv authHeader supabaseUrl w of
               (Inl (Error message), w1) \<Rightarrow> (ErrorResponse 401 message None, w1)
             | (Inl NonError, w1) \<Rightarrow> (ErrorResponse 401 ''Authentication failed'' None, w1)
             | (Inr (uid, payload), w1) \<Rightarrow>
                 next \<lparr>userId = Some uid, userPayload = Some payload\<rparr> w1))"


section \<open>routes/reports.ts\<close>

text \<open>
  \<^verbatim>\<open>createSupabaseClient\<close> builds the client for the storage service and the
  database from the two environment values that the handler has just found present; the
  calls made through it are the two last answers of the outside world.

  The test \<^verbatim>\<open>error || !signed?.signedUrl\<close> after a request for a signed upload URL.
\<close>

definition grant_failed :: "SignedUploadResult \<Rightarrow> bool" where
  "grant_failed r =
     (error r \<noteq> None \<or>
      (case data r of None \<Rightarrow> True | Some signed \<Rightarrow> signedUrl signed = []))"

text \<open>
  A JSON value as a handler sees it: \<^verbatim>\<open>null\<close>; an object, whose members are absent
  or of the type that the handler's interface declares; or any other value (a number, a
  string, a boolean, an array), on which every member that a handler reads is
  \<^verbatim>\<open>undefined\<close>. Reading a member of \<^verbatim>\<open>null\<close> throws a \<^verbatim>\<open>TypeError\<close>.
\<close>

datatype 'b json = JsonNull | JsonObject 'b | JsonOther

datatype TypeError = CannotReadNull string

definition type_error_message :: "TypeError \<Rightarrow> string" where
  "type_error_message err =
     (case err of CannotReadNull member \<Rightarrow>
        ''Cannot read properties of null (reading '' @ [CHR 0x27] @ member @ [CHR 0x27] @ '')'')"

text \<open>
  A request carries the \<^verbatim>\<open>Authorization\<close> header and a body; \<open>json_body\<close> is what
  \<^verbatim>\<open>c.req.json()\<close> resolves to, and \<open>None\<close> when it throws (no body, or a body that
  is not JSON).
\<close>

record 'b request =
  authorization :: "string option"
  json_body :: "'b json option"

text \<open>
  The members of the body that \<^verbatim>\<open>/reports/init\<close> reads, on a value that is not
  \<^verbatim>\<open>null\<close>.
\<close>

definition init_members :: "ReportInitRequest json \<Rightarrow> ReportInitRequest" where
  "init_members body =
     (case body of
        JsonObject b \<Rightarrow> b
      | _ \<Rightarrow> \<lparr>has_microphone = None, has_video = None\<rparr>)"

definition reports_init ::
  "'n services \<Rightarrow> Env \<Rightarrow> ReportInitRequest json option \<Rightarrow> ctx_vars \<Rightarrow> 'n world
    \<Rightarrow> (TypeError + response) \<times> 'n world" where
  "reports_init sv env parsed c w =
     (if \<not> truthy (userId c) then
        (Inr (ErrorResponse 401 ''User ID not found in token'' None), w)
      else if \<not> truthy (SUPABASE_URL env) \<or> \<not> truthy (SUPABASE_SERVICE_ROLE_KEY env) then
        (Inr (ErrorResponse 500 ''Server configuration error'' None), w)
      else
        (let body = (case parsed of
                       Some b \<Rightarrow> b
                     | None \<Rightarrow> JsonObject \<lparr>has_microphone = None, has_video = None\<rparr>);
             reportId = randomUUID sv;
             w0 = record_call (RandomUUID reportId) w;
             audioPath = reportId @ ''/system_audio.wav'';
             audio = createSignedUploadUrl sv ''reports-audio'' audioPath;
             w1 = record_call (CreateSignedUploadUrl ''reports-audio'' audioPath) w0
         in case data audio of
              None \<Rightarrow> (Inr (ErrorResponse 500 ''Failed to create audio upload URL'' None), w1)
            | Some audioSigned \<Rightarrow>
         if grant_failed audio then
           (Inr (ErrorResponse 500 ''Failed to create audio upload URL'' None), w1)
         else if body = JsonNull then (Inl (CannotReadNull ''has_microphone''), w1)
         else
           (let wants = init_members body;
                microphonePath = reportId @ ''/microphone.wav'';
                mic = createSignedUploadUrl sv ''reports-audio'' microphonePath;
                w2 = (if truthy_flag (has_microphone wants)
                      then record_call (CreateSignedUploadUrl ''reports-audio'' microphonePath) w1
                      else w1)
            in if truthy_flag (has_microphone wants) \<and> grant_failed mic then
                 (Inr (ErrorResponse 500 ''Failed to create microphone upload URL'' None), w2)
               else
                 (let videoPath = reportId @ ''/screen_recording.avi'';
                      video = createSignedUploadUrl sv ''reports-video'' videoPath;
                      w3 = (if truthy_flag (has_video wants)
                            then record_call (CreateSignedUploadUrl ''reports-video'' videoPath) w2
                            else w2)
                  in if truthy_flag (has_video wants) \<and> grant_failed video then
                       (Inr (ErrorResponse 500 ''Failed to create video upload URL'' None), w3)
                     else
                       (Inr (InitOk
                          \<lparr>res_report_id = reportId,
                           res_audio_upload_url = signedUrl audioSigned,
                           res_audio_upload_token = token audioSigned,
                           res_audio_path = audioPath,
                           res_microphone_upload_url =
                             (if truthy_flag (has_microphone wants)
                              then map_option signedUrl (data mic) else None),
                           res_microphone_upload_token =
                             (if truthy_flag (has_microphone wants)
                              then map_option token (data mic) else None),
                           res_microphone_path =
                             (if truthy_flag (has_microphone wants)
                              then Some microphonePath else None),
                           res_video_upload_url =
                             (if truthy_flag (has_video wants)
                              then map_option signedUrl (data video) else None),
                           res_video_upload_token =
                             (if truthy_flag (has_video wants)
                              then map_option token (data video) else None),
                           res_video_path =
                             (if truthy_flag (has_video wants)
                              then Some videoPath else None)\<rparr>), w3)))))"

text \<open>
  The members of the body that \<^verbatim>\<open>/reports/complete\<close> reads, on a value that is not
  \<^verbatim>\<open>null\<close>: those of the object, and none on any other value.
\<close>

definition complete_members :: "'n ReportCompleteRequest json \<Rightarrow> 'n ReportCompleteRequest" where
  "complete_members body =
     (case body of
        JsonObject b \<Rightarrow> b
      | _ \<Rightarrow>
          \<lparr>body_report_id = None, body_game_name = None, body_offender_name = None,
           body_description = None, body_targeted = None, body_desired_action = None,
           body_recording_start_utc = None, body_flag_utc = None,
           body_clip_start_offset_sec = None, body_clip_end_offset_sec = None,
           body_audio_path = None, body_microphone_path = None, body_video_path = None,
           body_other = []\<rparr>)"

definition reports_complete ::
  "'n services \<Rightarrow> Env \<Rightarrow> 'n ReportCompleteRequest json option \<Rightarrow> ctx_vars \<Rightarrow> 'n world
    \<Rightarrow> (TypeError + response) \<times> 'n world" where
  "reports_complete sv env parsed c w =
     (case userId c of
        None \<Rightarrow> (Inr (ErrorResponse 401 ''User ID not found in token'' None), w)
      | Some uid \<Rightarrow>
     if uid = [] then (Inr (ErrorResponse 401 ''User ID not found in token'' None), w)
     else if \<not> truthy (SUPABASE_URL env) \<or> \<not> truthy (SUPABASE_SERVICE_ROLE_KEY env) then
       (Inr (ErrorResponse 500 ''Server configuration error'' None), w)
     else
       (case parsed of
          None \<Rightarrow> (Inr (ErrorResponse 400 ''Invalid JSON body'' None), w)
        | Some JsonNull \<Rightarrow> (Inl (CannotReadNull ''report_id''), w)
        | Some value \<Rightarrow>
            (let body = complete_members value in
             case body_report_id body of
               None \<Rightarrow> (Inr (ErrorResponse 400 ''Missing report_id'' None), w)
             | Some rid \<Rightarrow>
            if rid = [] then (Inr (ErrorResponse 400 ''Missing report_id'' None), w)
            else
              (let audioPaths =
                     join_comma (filter_Boolean [body_audio_path body, body_microphone_path body]);
                   reportData =
                     \<lparr>row_id = rid,
                      row_user_id = uid,
                      row_game_name = or_null (body_game_name body),
                      row_offender_name = or_null (body_offender_name body),
                      row_description = or_null (body_description body),
                      row_targeted =
                        (case body_targeted body of None \<Rightarrow> None | Some t \<Rightarrow> Some t),
                      row_desired_action = or_null (body_desired_action body),
                      row_recording_start_utc = or_null (body_recording_start_utc body),
                      row_flag_utc = or_null (body_flag_utc body),
                      row_clip_start_offset_sec =
                        (case body_clip_start_offset_sec body of None \<Rightarrow> None | Some x \<Rightarrow> Some x),
                      row_clip_end_offset_sec =
                        (case body_clip_end_offset_sec body of None \<Rightarrow> None | Some x \<Rightarrow> Some x),
                      row_audio_path = or_null (Some audioPaths),
                      row_video_path = or_null (body_video_path body),
                      row_forwarded_to_modulate = False\<rparr>;
                   w1 = record_call (InsertReport reportData) w
               in case insert_report sv (reports_table w) reportData of
                    Some details \<Rightarrow>
                      (Inr (ErrorResponse 500 ''Failed to create report'' (Some details)), w1)
                  | None \<Rightarrow>
                      (Inr (CompleteOk rid),
                       w1\<lparr>reports_table := reports_table w1 @ [reportData]\<rparr>)))))"


section \<open>index.ts\<close>

text \<open>
  The application's error handler, and the framework's use of it: an error thrown by a
  route handler is caught where the handler was called and answered by \<^verbatim>\<open>onError\<close>,
  so that \<^verbatim>\<open>next()\<close> in the middleware returns normally and the \<^verbatim>\<open>catch\<close> of the
  middleware sees the errors of \<^verbatim>\<open>verifyToken\<close> only.
\<close>

definition onError :: "TypeError \<Rightarrow> response" where
  "onError err = InternalServerError (type_error_message err)"

definition dispatch ::
  "(ctx_vars \<Rightarrow> 'n world \<Rightarrow> (TypeError + response) \<times> 'n world)
    \<Rightarrow> ctx_vars \<Rightarrow> 'n world \<Rightarrow> response \<times> 'n world" where
  "dispatch handler c w =
     (case handler c w of
        (Inl err, w') \<Rightarrow> (onError err, w')
      | (Inr res, w') \<Rightarrow> (res, w'))"

text \<open>The two routes as mounted: the middleware first, then the handler.\<close>

definition post_init ::
  "'n services \<Rightarrow> Env \<Rightarrow> ReportInitRequest request \<Rightarrow> 'n world \<Rightarrow> response \<times> 'n world" where
  "post_init sv env req w =
     authMiddleware sv env (authorization req)
       (dispatch (reports_init sv env (json_body req))) w"

definition post_complete ::
  "'n services \<Rightarrow> Env \<Rightarrow> 'n ReportCompleteRequest request \<Rightarrow> 'n world
    \<Rightarrow> response \<times> 'n world" where
  "post_complete sv env req w =
     authMiddleware sv env (authorization req)
       (dispatch (reports_complete sv env (json_body req))) w"


section \<open>Vocabulary of the specification\<close>

text \<open>
  The worker throws plain \<^verbatim>\<open>Error\<close>s; the kinds of the specification are read off
  the messages. The two errors thrown before the \<^verbatim>\<open>try\<close> block are the malformed
  credential; every error that leaves the \<^verbatim>\<open>catch\<close> block starts with
  \<^verbatim>\<open>JWT verification failed\<close> and is the rejected credential.
\<close>

definition is_MalformedCredential :: "thrown \<Rightarrow> bool" where
  "is_MalformedCredential e =
     (e = Error ''Missing Authorization header'' \<or>
      e = Error ''Invalid Authorization header format. Expected: Bearer <token>'')"

definition is_CredentialRejected :: "thrown \<Rightarrow> bool" where
  "is_CredentialRejected e =
     (case e of Error message \<Rightarrow> take 23 message = ''JWT verification failed'' | NonError \<Rightarrow> False)"

text \<open>
  Counting the calls of one kind. A fetch is a download of the key set by a resolver; a
  construction is a call of \<^verbatim>\<open>createRemoteJWKSet\<close>, which downloads nothing.
\<close>

fun is_fetch :: "'n call \<Rightarrow> bool" where
  "is_fetch (FetchJWKS k) = True"
| "is_fetch c = False"


fun is_construction :: "'n call \<Rightarrow> bool" where
  "is_construction (CreateRemoteJWKSet u) = True"
| "is_construction c = False"


text \<open>The insert calls, and the identifiers that the worker generated.\<close>

fun is_insert :: "'n call \<Rightarrow> bool" where
  "is_insert (InsertReport r) = True"
| "is_insert c = False"

definition insert_attempts :: "'n world \<Rightarrow> nat" where
  "insert_attempts w = length (filter is_insert (calls w))"

fun issued_ids :: "'n call list \<Rightarrow> string list" where
  "issued_ids [] = []"
| "issued_ids (RandomUUID u # cs) = u # issued_ids cs"
| "issued_ids (c # cs) = issued_ids cs"

text \<open>
  The two flags of \<^verbatim>\<open>/reports/init\<close> as the handler reads them: a flag is wanted
  when the body was parsed to an object and the member is true.
\<close>

definition want_microphone :: "ReportInitRequest json option \<Rightarrow> bool" where
  "want_microphone parsed =
     (case parsed of Some (JsonObject b) \<Rightarrow> truthy_flag (has_microphone b) | _ \<Rightarrow> False)"

definition want_video :: "ReportInitRequest json option \<Rightarrow> bool" where
  "want_video parsed =
     (case parsed of Some (JsonObject b) \<Rightarrow> truthy_flag (has_video b) | _ \<Rightarrow> False)"



text \<open>
  The header shape as the specification words it: exactly two whitespace-delimited
  parts, the first literally \<^verbatim>\<open>Bearer\<close>. Whitespace is space, tab, line feed and
  carriage return; parts are the maximal runs without whitespace.
\<close>

definition whitespace :: "char \<Rightarrow> bool" where
  "whitespace c = (c = CHR '' '' \<or> c = CHR 0x09 \<or> c = CHR 0x0A \<or> c = CHR 0x0D)"

fun ws_parts :: "string \<Rightarrow> string \<Rightarrow> string list" where
  "ws_parts cur [] = (if cur = [] then [] else [cur])"
| "ws_parts cur (c # cs) =
     (if whitespace c then (if cur = [] then ws_parts [] cs else cur # ws_parts [] cs)
      else ws_parts (cur @ [c]) cs)"

definition spec_bearer_scheme :: "string option \<Rightarrow> bool" where
  "spec_bearer_scheme h =
     (case h of
        None \<Rightarrow> False
      | Some s \<Rightarrow> (case ws_parts [] s of [a, b] \<Rightarrow> a = ''Bearer'' | _ \<Rightarrow> False))"

text \<open>
  Modelled from the spec: \<^verbatim>\<open>jwtVerify\<close> belongs to the token library, whose code is
  not among the sources. The specification says what it checks: the structure of the
  token, its signature against the resolved key set, that the issuer claim equals the
  expected issuer, that the audience claim equals the expected audience, and that the
  expiry claim is in the future; any failure throws an error. \<open>decode\<close> reads the
  claims of a token, \<open>signed_by\<close> is the signature check and \<open>clock\<close> the time in
  the unit of the expiry claim.
\<close>

definition spec_jwtVerify ::
  "(string \<Rightarrow> SupabaseJWTPayload option) \<Rightarrow> (JWKS \<Rightarrow> string \<Rightarrow> bool) \<Rightarrow> int
    \<Rightarrow> string \<Rightarrow> JWKS \<Rightarrow> JWTVerifyOptions \<Rightarrow> thrown + SupabaseJWTPayload" where
  "spec_jwtVerify decode signed_by clock tok keys opts =
     (case decode tok of
        None \<Rightarrow> Inl (Error ''malformed token'')
      | Some claims \<Rightarrow>
          if \<not> signed_by keys tok then Inl (Error ''signature verification failed'')
          else if iss claims \<noteq> Some (issuer opts) then Inl (Error ''unexpected issuer'')
          else if aud claims \<noteq> Some (audience opts) then Inl (Error ''unexpected audience'')
          else (case exp claims of
                  None \<Rightarrow> Inl (Error ''token has no expiry'')
                | Some e \<Rightarrow> if e \<le> clock then Inl (Error ''token expired'') else Inr claims))"



section \<open>A concrete deployment\<close>

definition demo_env :: Env where
  "demo_env =
     \<lparr>SUPABASE_URL = Some ''https://p.supabase.co'', SUPABASE_SERVICE_ROLE_KEY = Some ''key''\<rparr>"

definition demo_claims :: SupabaseJWTPayload where
  "demo_claims =
     \<lparr>sub = Some ''user-1'', email = None, role = None,
      iss = Some ''https://p.supabase.co/auth/v1'', aud = Some ''authenticated'',
      exp = Some 2000, iat = Some 1000\<rparr>"

definition demo_decode :: "string \<Rightarrow> SupabaseJWTPayload option" where
  "demo_decode tok = (if tok = ''h.p.s'' then Some demo_claims else None)"

definition demo_signed :: "string \<Rightarrow> string \<Rightarrow> SignedUploadResult" where
  "demo_signed bucket p =
     \<lparr>data = Some \<lparr>signedUrl = ''https://s/'' @ bucket @ ''/'' @ p, token = ''t'', path = p\<rparr>,
      error = None\<rparr>"

definition demo_refused :: "string \<Rightarrow> string \<Rightarrow> SignedUploadResult" where
  "demo_refused bucket p =
     (if bucket = ''reports-video'' then \<lparr>data = None, error = Some ''bucket not found''\<rparr>
      else demo_signed bucket p)"

text \<open>
  The platform's URL parser on the strings used here, and a resolver that downloads the
  key set once during each verification of a well-formed token (as one does that keeps
  a downloaded key set for less than the time between two verifications).
\<close>

definition demo_new_URL :: "string \<Rightarrow> thrown + string" where
  "demo_new_URL s = (if take 8 s = ''https://'' then Inr s else Inl (Error ''Invalid URL''))"

definition demo_services :: "int services" where
  "demo_services =
     \<lparr>date_now = 1500000,
      randomUUID = ''0b5e'',
      new_URL = demo_new_URL,
      jwtVerify = spec_jwtVerify demo_decode (\<lambda>keys tok. True) 1500,
      jwks_downloads = (\<lambda>tok keys. if demo_decode tok = None then 0 else 1),
      createSignedUploadUrl = demo_signed,
      insert_report = (\<lambda>rows r. None)\<rparr>"

definition demo_body :: "int ReportCompleteRequest" where
  "demo_body =
     \<lparr>body_report_id = Some ''picked-by-client'',
      body_game_name = None, body_offender_name = None, body_description = Some ''rude'',
      body_targeted = Some True, body_desired_action = None,
      body_recording_start_utc = None, body_flag_utc = None,
      body_clip_start_offset_sec = Some 0, body_clip_end_offset_sec = Some 10,
      body_audio_path = Some ''a/x.wav'', body_microphone_path = Some ''a/y.wav'',
      body_video_path = None,
      body_other = [(''user_id'', ''someone-else'')]\<rparr>"

definition demo_warm :: "int world" where
  "demo_warm =
     \<lparr>jwksCache =
        \<lparr>jwks = Some (RemoteJWKSet ''https://p.supabase.co/auth/v1/.well-known/jwks.json''),
         timestamp = 1500000\<rparr>,
      reports_table = [],
      calls = [CreateRemoteJWKSet ''https://p.supabase.co/auth/v1/.well-known/jwks.json'']\<rparr>"

definition demo_request :: "int ReportCompleteRequest request" where
  "demo_request =
     \<lparr>authorization = Some ''Bearer h.p.s'', json_body = Some (JsonObject demo_body)\<rparr>"

definition demo_init_request :: "ReportInitRequest request" where
  "demo_init_request =
     \<lparr>authorization = Some ''Bearer h.p.s'',
      json_body = Some (JsonObject \<lparr>has_microphone = Some True, has_video = Some False\<rparr>)\<rparr>"


section \<open>Splitting the header\<close>

lemma split_space_nonempty: "split_space s \<noteq> []"
  by (induction s) (auto split: list.splits)

lemma split_space_no_space: "CHR '' '' \<notin> set t \<Longrightarrow> split_space t = [t]"
  by (induction t) auto

lemma split_space_append:
  "CHR '' '' \<notin> set a \<Longrightarrow> split_space (a @ CHR '' '' # b) = a # split_space b"
  by (induction a) auto

lemma split_space_pieces: "p \<in> set (split_space s) \<Longrightarrow> CHR '' '' \<notin> set p"
  by (induction s arbitrary: p) (auto split: if_splits list.splits)

lemma split_space_one: "split_space s = [b] \<Longrightarrow> s = b"
  by (induction s arbitrary: b) (auto split: if_splits list.splits simp: split_space_nonempty)

lemma split_space_two: "split_space s = [a, b] \<Longrightarrow> s = a @ CHR '' '' # b"
  by (induction s arbitrary: a) (auto split: if_splits list.splits dest: split_space_one)

lemma bearer_shape_iff:
  "(length (split_space s) = 2 \<and> split_space s ! 0 = ''Bearer'')
     \<longleftrightarrow> (\<exists>t. s = ''Bearer '' @ t \<and> CHR '' '' \<notin> set t)"
proof
  assume h: "length (split_space s) = 2 \<and> split_space s ! 0 = ''Bearer''"
  then obtain b where sp: "split_space s = [''Bearer'', b]"
    by (cases "split_space s"; cases "tl (split_space s)") auto
  have "b \<in> set (split_space s)" using sp by simp
  then have "CHR '' '' \<notin> set b" by (rule split_space_pieces)
  moreover have "s = ''Bearer '' @ b" using split_space_two[OF sp] by simp
  ultimately show "\<exists>t. s = ''Bearer '' @ t \<and> CHR '' '' \<notin> set t" by blast
next
  assume "\<exists>t. s = ''Bearer '' @ t \<and> CHR '' '' \<notin> set t"
  then obtain t where s: "s = ''Bearer '' @ t" and t: "CHR '' '' \<notin> set t" by blast
  have "split_space s = [''Bearer'', t]"
    using split_space_append[of "''Bearer''" t] split_space_no_space[OF t] s by simp
  then show "length (split_space s) = 2 \<and> split_space s ! 0 = ''Bearer''" by simp
qed


section \<open>The verifier and the handlers, step by step\<close>

lemma filter_replicate_fetch [simp]:
  "filter is_insert (replicate n (FetchJWKS k)) = []"
  "filter is_construction (replicate n (FetchJWKS k)) = []"
  "filter is_fetch (replicate n (FetchJWKS k)) = replicate n (FetchJWKS k)"
  by (induction n) simp_all

lemma getJWKS_reports_table: "reports_table (snd (getJWKS sv url w)) = reports_table w"
  by (simp add: getJWKS_def record_call_def Let_def split: option.splits sum.splits)

lemma getJWKS_inserts: "insert_attempts (snd (getJWKS sv url w)) = insert_attempts w"
  by (simp add: getJWKS_def record_call_def insert_attempts_def Let_def
           split: option.splits sum.splits)

lemma verifyToken_reports_table:
  "reports_table (snd (verifyToken sv h url w)) = reports_table w"
  using getJWKS_reports_table[of sv url w]
  by (auto simp: verifyToken_def record_call_def record_downloads_def Let_def
           split: option.splits sum.splits prod.splits)

lemma verifyToken_inserts:
  "insert_attempts (snd (verifyToken sv h url w)) = insert_attempts w"
  using getJWKS_inserts[of sv url w]
  by (auto simp: verifyToken_def record_call_def record_downloads_def insert_attempts_def Let_def
           split: option.splits sum.splits prod.splits)

lemma verifyToken_subject:
  "verifyToken sv h url w = (Inr (uid, claims), w1) \<Longrightarrow> uid \<noteq> [] \<and> sub claims = Some uid"
  by (auto simp: verifyToken_def Let_def
           split: option.splits sum.splits prod.splits if_splits)

lemma authMiddleware_passes:
  assumes "authMiddleware sv env h next w = (resp, w')"
    and "status resp \<noteq> 401" and "status resp \<noteq> 500"
  shows "\<exists>url uid claims w1.
           SUPABASE_URL env = Some url \<and> url \<noteq> [] \<and>
           verifyToken sv h url w = (Inr (uid, claims), w1) \<and>
           next \<lparr>userId = Some uid, userPayload = Some claims\<rparr> w1 = (resp, w')"
  using assms
  by (auto simp: authMiddleware_def split: option.splits if_splits prod.splits sum.splits thrown.splits)

lemma authMiddleware_accepted:
  assumes "SUPABASE_URL env = Some url" and "url \<noteq> []"
    and "verifyToken sv h url w = (Inr (uid, claims), w1)"
  shows "authMiddleware sv env h next w = next \<lparr>userId = Some uid, userPayload = Some claims\<rparr> w1"
  using assms by (simp add: authMiddleware_def)

lemma dispatch_not_500:
  assumes "dispatch handler c w = (resp, w')" and "status resp \<noteq> 500"
  shows "handler c w = (Inr resp, w')"
  using assms by (auto simp: dispatch_def onError_def split: prod.splits sum.splits)

lemma dispatch_Inr: "handler c w = (Inr resp, w') \<Longrightarrow> dispatch handler c w = (resp, w')"
  by (simp add: dispatch_def)


lemma reports_complete_success:
  assumes "reports_complete sv env parsed c w = (Inr resp, w')" and "status resp = 201"
  shows "\<exists>uid body rid row.
           userId c = Some uid \<and> uid \<noteq> [] \<and> parsed = Some (JsonObject body) \<and>
           body_report_id body = Some rid \<and> rid \<noteq> [] \<and> resp = CompleteOk rid \<and>
           row_id row = rid \<and> row_user_id row = uid \<and>
           row_audio_path row =
             or_null (Some (join_comma (filter_Boolean [body_audio_path body, body_microphone_path body]))) \<and>
           row_video_path row = or_null (body_video_path body) \<and>
           row_forwarded_to_modulate row = False \<and>
           reports_table w' = reports_table w @ [row] \<and>
           calls w' = calls w @ [InsertReport row]"
  using assms
  by (auto simp: reports_complete_def complete_members_def record_call_def Let_def
           split: option.splits if_splits json.splits)

lemma post_complete_success:
  assumes "status (fst (post_complete sv env req w)) = 201"
  shows "\<exists>url uid claims w1 body rid row.
           SUPABASE_URL env = Some url \<and>
           verifyToken sv (authorization req) url w = (Inr (uid, claims), w1) \<and>
           json_body req = Some (JsonObject body) \<and>
           body_report_id body = Some rid \<and> rid \<noteq> [] \<and>
           fst (post_complete sv env req w) = CompleteOk rid \<and>
           row_id row = rid \<and> row_user_id row = uid \<and>
           row_audio_path row =
             or_null (Some (join_comma (filter_Boolean [body_audio_path body, body_microphone_path body]))) \<and>
           row_video_path row = or_null (body_video_path body) \<and>
           reports_table (snd (post_complete sv env req w)) = reports_table w @ [row]"
proof -
  obtain resp w' where pc: "post_complete sv env req w = (resp, w')"
    by (cases "post_complete sv env req w")
  with assms have st: "status resp = 201" by simp
  from pc have am: "authMiddleware sv env (authorization req)
      (dispatch (reports_complete sv env (json_body req))) w = (resp, w')"
    by (simp add: post_complete_def)
  from authMiddleware_passes[OF am] st obtain url uid claims w1 where
    url: "SUPABASE_URL env = Some url" and
    vt: "verifyToken sv (authorization req) url w = (Inr (uid, claims), w1)" and
    dp: "dispatch (reports_complete sv env (json_body req))
           \<lparr>userId = Some uid, userPayload = Some claims\<rparr> w1 = (resp, w')"
    by auto
  have rc: "reports_complete sv env (json_body req) \<lparr>userId = Some uid, userPayload = Some claims\<rparr> w1
           = (Inr resp, w')"
    using dispatch_not_500[OF dp] st by simp
  have tbl: "reports_table w1 = reports_table w"
    using verifyToken_reports_table[of sv "authorization req" url w] vt by simp
  from reports_complete_success[OF rc st] url vt tbl pc show ?thesis
    by auto
qed

lemma reports_complete_ignores_other:
  "reports_complete sv env (map_option (map_json (\<lambda>b. b\<lparr>body_other := other\<rparr>)) parsed) c w
     = reports_complete sv env parsed c w"
proof (cases parsed)
  case None
  then show ?thesis by (simp add: reports_complete_def)
next
  case (Some v)
  then show ?thesis
    by (cases v) (auto simp: reports_complete_def complete_members_def Let_def split: option.splits)
qed


section \<open>Running the concrete deployment\<close>

lemmas demo_defs =
  demo_request_def demo_init_request_def demo_body_def demo_env_def demo_services_def
  demo_new_URL_def
  demo_claims_def demo_decode_def demo_signed_def demo_refused_def
  demo_warm_def initial_world_def

lemmas run_defs =
  post_complete_def post_init_def authMiddleware_def verifyToken_def getJWKS_def
  dispatch_def onError_def complete_members_def init_members_def
  reports_complete_def reports_init_def record_call_def record_downloads_def
  createRemoteJWKSet_def
  spec_jwtVerify_def grant_failed_def truthy_def truthy_flag_def or_null_def
  JWKS_CACHE_TTL_def Let_def

lemma demo_verify:
  "fst (verifyToken demo_services (Some ''Bearer h.p.s'') ''https://p.supabase.co'' initial_world)
     = Inr (''user-1'', demo_claims)"
  by (simp add: demo_defs run_defs)

lemma demo_complete_status:
  "status (fst (post_complete demo_services demo_env demo_request initial_world)) = 201"
  by (simp add: demo_defs run_defs)


section \<open>Identity binding\<close>

text \<open>
  C1. Whenever \<^verbatim>\<open>/reports/complete\<close> answers 201, the token verifier accepted the
  request's header with some subject, exactly one row was appended to the table, and the
  owner of that row is that subject. The owner does not depend on the body: every body
  that succeeds with the same header persists the same owner, and changing only the
  members that the handler does not read (a \<^verbatim>\<open>user_id\<close> sent by the client, say)
  changes neither the response nor the state.
\<close>

theorem finalize_owner_is_verified_subject:
  assumes "status (fst (post_complete sv env req w)) = 201"
  shows "\<exists>url uid claims w1 row.
           SUPABASE_URL env = Some url \<and>
           verifyToken sv (authorization req) url w = (Inr (uid, claims), w1) \<and>
           reports_table (snd (post_complete sv env req w)) = reports_table w @ [row] \<and>
           row_user_id row = uid \<and>
           (\<forall>parsed.
              status (fst (post_complete sv env (req\<lparr>json_body := parsed\<rparr>) w)) = 201 \<longrightarrow>
              row_user_id (last (reports_table
                (snd (post_complete sv env (req\<lparr>json_body := parsed\<rparr>) w)))) = uid) \<and>
           (\<forall>other.
              post_complete sv env
                (req\<lparr>json_body :=
                       map_option (map_json (\<lambda>b. b\<lparr>body_other := other\<rparr>)) (json_body req)\<rparr>) w
                = post_complete sv env req w)"
proof -
  from post_complete_success[OF assms] obtain url uid claims w1 row where
    url: "SUPABASE_URL env = Some url" and
    vt: "verifyToken sv (authorization req) url w = (Inr (uid, claims), w1)" and
    tbl: "reports_table (snd (post_complete sv env req w)) = reports_table w @ [row]" and
    own: "row_user_id row = uid"
    by blast
  have any: "row_user_id (last (reports_table
                (snd (post_complete sv env (req\<lparr>json_body := parsed\<rparr>) w)))) = uid"
    if ok: "status (fst (post_complete sv env (req\<lparr>json_body := parsed\<rparr>) w)) = 201" for parsed
  proof -
    from post_complete_success[OF ok] obtain url' uid' claims' w1' row' where
      "SUPABASE_URL env = Some url'" and
      "verifyToken sv (authorization req) url' w = (Inr (uid', claims'), w1')" and
      t: "reports_table (snd (post_complete sv env (req\<lparr>json_body := parsed\<rparr>) w))
            = reports_table w @ [row']" and
      o: "row_user_id row' = uid'"
      by auto
    with url vt have "uid' = uid" by simp
    with t o show ?thesis by simp
  qed
  have other: "post_complete sv env
                (req\<lparr>json_body :=
                       map_option (map_json (\<lambda>b. b\<lparr>body_other := other\<rparr>)) (json_body req)\<rparr>) w
                = post_complete sv env req w" for other
  proof -
    have "reports_complete sv env
            (map_option (map_json (\<lambda>b. b\<lparr>body_other := other\<rparr>)) (json_body req))
            = reports_complete sv env (json_body req)"
      by (intro ext) (rule reports_complete_ignores_other)
    then show ?thesis by (simp add: post_complete_def)
  qed
  from url vt tbl own any other show ?thesis by blast
qed

theorem finalize_owner_is_verified_subject_witness:
  "status (fst (post_complete demo_services demo_env demo_request initial_world)) = 201 \<and>
   (\<exists>row. reports_table (snd (post_complete demo_services demo_env demo_request initial_world))
            = reports_table initial_world @ [row] \<and>
          row_user_id row = ''user-1'')"
proof -
  have ok: "status (fst (post_complete demo_services demo_env demo_request initial_world)) = 201"
    by (rule demo_complete_status)
  from finalize_owner_is_verified_subject[OF ok] obtain url uid claims w1 row where
    url: "SUPABASE_URL demo_env = Some url" and
    vt: "verifyToken demo_services (authorization demo_request) url initial_world
           = (Inr (uid, claims), w1)" and
    tbl: "reports_table (snd (post_complete demo_services demo_env demo_request initial_world))
            = reports_table initial_world @ [row]" and
    own: "row_user_id row = uid"
    by blast
  from url have u: "url = ''https://p.supabase.co''" by (simp add: demo_env_def)
  have "uid = ''user-1''"
    using vt demo_verify unfolding u by (simp add: demo_request_def)
  with ok tbl own show ?thesis by blast
qed


section \<open>Path reconciliation\<close>

text \<open>
  C5. Whenever \<^verbatim>\<open>/reports/complete\<close> answers 201, one row was appended, and its
  combined audio field is: the audio path, a comma and the microphone path when both are
  supplied (present and not empty); the one supplied path when the other is empty or
  absent; null when neither is supplied. Its video field is the video path when that is
  supplied and null otherwise.
\<close>

theorem finalize_combines_audio_paths:
  assumes "status (fst (post_complete sv env req w)) = 201"
  shows "\<exists>body row.
           json_body req = Some (JsonObject body) \<and>
           reports_table (snd (post_complete sv env req w)) = reports_table w @ [row] \<and>
           (\<forall>a m. body_audio_path body = Some a \<and> a \<noteq> [] \<and>
                  body_microphone_path body = Some m \<and> m \<noteq> [] \<longrightarrow>
                  row_audio_path row = Some (a @ '','' @ m)) \<and>
           (\<forall>a. body_audio_path body = Some a \<and> a \<noteq> [] \<and>
                \<not> truthy (body_microphone_path body) \<longrightarrow>
                row_audio_path row = Some a) \<and>
           (\<forall>m. \<not> truthy (body_audio_path body) \<and>
                body_microphone_path body = Some m \<and> m \<noteq> [] \<longrightarrow>
                row_audio_path row = Some m) \<and>
           (\<not> truthy (body_audio_path body) \<and> \<not> truthy (body_microphone_path body) \<longrightarrow>
                row_audio_path row = None) \<and>
           (truthy (body_video_path body) \<longrightarrow> row_video_path row = body_video_path body) \<and>
           (\<not> truthy (body_video_path body) \<longrightarrow> row_video_path row = None)"
proof -
  from post_complete_success[OF assms] obtain body row where
    b: "json_body req = Some (JsonObject body)" and
    t: "reports_table (snd (post_complete sv env req w)) = reports_table w @ [row]" and
    a: "row_audio_path row =
          or_null (Some (join_comma (filter_Boolean [body_audio_path body, body_microphone_path body])))" and
    v: "row_video_path row = or_null (body_video_path body)"
    by blast
  have "\<forall>a m. body_audio_path body = Some a \<and> a \<noteq> [] \<and>
                  body_microphone_path body = Some m \<and> m \<noteq> [] \<longrightarrow>
                  row_audio_path row = Some (a @ '','' @ m)"
    using a by (auto simp: or_null_def truthy_def split: option.splits)
  moreover have "\<forall>a. body_audio_path body = Some a \<and> a \<noteq> [] \<and>
                \<not> truthy (body_microphone_path body) \<longrightarrow> row_audio_path row = Some a"
    using a by (auto simp: or_null_def truthy_def split: option.splits)
  moreover have "\<forall>m. \<not> truthy (body_audio_path body) \<and>
                body_microphone_path body = Some m \<and> m \<noteq> [] \<longrightarrow> row_audio_path row = Some m"
    using a by (auto simp: or_null_def truthy_def split: option.splits)
  moreover have "\<not> truthy (body_audio_path body) \<and> \<not> truthy (body_microphone_path body) \<longrightarrow>
                row_audio_path row = None"
    using a by (auto simp: or_null_def truthy_def split: option.splits)
  moreover have "truthy (body_video_path body) \<longrightarrow> row_video_path row = body_video_path body"
    using v by (simp add: or_null_def)
  moreover have "\<not> truthy (body_video_path body) \<longrightarrow> row_video_path row = None"
    using v by (simp add: or_null_def)
  ultimately show ?thesis using b t by blast
qed

theorem finalize_combines_audio_paths_witness:
  "status (fst (post_complete demo_services demo_env demo_request initial_world)) = 201 \<and>
   (\<exists>row. reports_table (snd (post_complete demo_services demo_env demo_request initial_world))
            = reports_table initial_world @ [row] \<and>
          row_audio_path row = Some ''a/x.wav,a/y.wav'' \<and> row_video_path row = None)"
proof -
  have ok: "status (fst (post_complete demo_services demo_env demo_request initial_world)) = 201"
    by (rule demo_complete_status)
  from finalize_combines_audio_paths[OF ok] obtain body row where
    b: "json_body demo_request = Some (JsonObject body)" and
    t: "reports_table (snd (post_complete demo_services demo_env demo_request initial_world))
          = reports_table initial_world @ [row]" and
    both: "\<forall>a m. body_audio_path body = Some a \<and> a \<noteq> [] \<and>
                  body_microphone_path body = Some m \<and> m \<noteq> [] \<longrightarrow>
                  row_audio_path row = Some (a @ '','' @ m)" and
    nv: "\<not> truthy (body_video_path body) \<longrightarrow> row_video_path row = None"
    by blast
  from b have body: "body = demo_body" by (simp add: demo_request_def)
  have "row_audio_path row = Some ''a/x.wav,a/y.wav''"
    using both unfolding body by (simp add: demo_body_def)
  moreover have "row_video_path row = None"
    using nv unfolding body by (simp add: demo_body_def truthy_def)
  ultimately show ?thesis using ok t by blast
qed


section \<open>Missing report identifier\<close>



lemma post_complete_accepted:
  assumes "SUPABASE_URL env = Some url" and "url \<noteq> []"
    and "fst (verifyToken sv (authorization req) url w) = Inr (uid, claims)"
  shows "\<exists>w1. uid \<noteq> [] \<and> reports_table w1 = reports_table w \<and>
           insert_attempts w1 = insert_attempts w \<and>
           post_complete sv env req w =
             dispatch (reports_complete sv env (json_body req))
               \<lparr>userId = Some uid, userPayload = Some claims\<rparr> w1"
proof -
  obtain w1 where vt: "verifyToken sv (authorization req) url w = (Inr (uid, claims), w1)"
    using assms(3) by (cases "verifyToken sv (authorization req) url w") simp
  from verifyToken_subject[OF vt] have "uid \<noteq> []" by simp
  moreover have "reports_table w1 = reports_table w"
    using verifyToken_reports_table[of sv "authorization req" url w] vt by simp
  moreover have "insert_attempts w1 = insert_attempts w"
    using verifyToken_inserts[of sv "authorization req" url w] vt by simp
  moreover have "post_complete sv env req w =
      dispatch (reports_complete sv env (json_body req))
        \<lparr>userId = Some uid, userPayload = Some claims\<rparr> w1"
    unfolding post_complete_def by (rule authMiddleware_accepted[OF assms(1,2) vt])
  ultimately show ?thesis by blast
qed





section \<open>Where the report identifier comes from\<close>

text \<open>
  C9, as stated, fails. The claim says that the identifier of every persisted row is
  one that the worker produced. In the concrete deployment, starting from the initial
  state in which \<^verbatim>\<open>/reports/init\<close> was never called, \<^verbatim>\<open>/reports/complete\<close> with
  \<^verbatim>\<open>report_id\<close> set to a string of the client's choice answers 201 and persists a row
  with that identifier, although the worker has generated no identifier at all.
\<close>

theorem finalize_persists_identifier_never_issued:
  "fst (post_complete demo_services demo_env demo_request initial_world)
     = CompleteOk ''picked-by-client'' \<and>
   map row_id (reports_table (snd (post_complete demo_services demo_env demo_request initial_world)))
     = [''picked-by-client''] \<and>
   issued_ids (calls (snd (post_complete demo_services demo_env demo_request initial_world))) = []"
  by (simp add: demo_defs run_defs)

lemma reports_init_success:
  assumes "reports_init sv env parsed c w = (Inr (InitOk r), w')"
  shows "res_report_id r = randomUUID sv \<and> RandomUUID (randomUUID sv) \<in> set (calls w')"
  using assms
  by (auto simp: reports_init_def record_call_def Let_def split: option.splits if_splits)

lemma post_init_success:
  assumes "fst (post_init sv env req w) = InitOk r"
  shows "\<exists>url uid claims w1.
           SUPABASE_URL env = Some url \<and> url \<noteq> [] \<and>
           verifyToken sv (authorization req) url w = (Inr (uid, claims), w1) \<and>
           reports_init sv env (json_body req) \<lparr>userId = Some uid, userPayload = Some claims\<rparr> w1
             = (Inr (InitOk r), snd (post_init sv env req w))"
proof -
  obtain resp w' where pc: "post_init sv env req w = (resp, w')"
    by (cases "post_init sv env req w")
  with assms have r: "resp = InitOk r" by simp
  from pc have am: "authMiddleware sv env (authorization req)
      (dispatch (reports_init sv env (json_body req))) w = (resp, w')"
    by (simp add: post_init_def)
  from authMiddleware_passes[OF am] r obtain url uid claims w1 where
    u: "SUPABASE_URL env = Some url" "url \<noteq> []" and
    vt: "verifyToken sv (authorization req) url w = (Inr (uid, claims), w1)" and
    dp: "dispatch (reports_init sv env (json_body req))
           \<lparr>userId = Some uid, userPayload = Some claims\<rparr> w1 = (resp, w')"
    by auto
  from dispatch_not_500[OF dp] r have
    "reports_init sv env (json_body req) \<lparr>userId = Some uid, userPayload = Some claims\<rparr> w1
       = (Inr (InitOk r), w')"
    by simp
  with u vt pc show ?thesis by auto
qed

text \<open>
  C9, amended. \<^verbatim>\<open>/reports/init\<close> answers with the identifier that the random UUID
  generator gave for this request, whatever the request holds, and the call to the
  generator is on record. \<^verbatim>\<open>/reports/complete\<close> persists as the row's identifier the
  non-empty \<^verbatim>\<open>report_id\<close> of the request body and echoes it in the response.
\<close>

theorem identifier_generated_by_init_echoed_by_complete:
  "(\<forall>r. fst (post_init sv env req w) = InitOk r \<longrightarrow>
        res_report_id r = randomUUID sv \<and>
        RandomUUID (randomUUID sv) \<in> set (calls (snd (post_init sv env req w)))) \<and>
   (status (fst (post_complete sv env creq w)) = 201 \<longrightarrow>
      (\<exists>body rid row.
         json_body creq = Some (JsonObject body) \<and>
         body_report_id body = Some rid \<and> rid \<noteq> [] \<and>
         fst (post_complete sv env creq w) = CompleteOk rid \<and>
         reports_table (snd (post_complete sv env creq w)) = reports_table w @ [row] \<and>
         row_id row = rid))"
proof -
  have "res_report_id r = randomUUID sv \<and>
        RandomUUID (randomUUID sv) \<in> set (calls (snd (post_init sv env req w)))"
    if "fst (post_init sv env req w) = InitOk r" for r
  proof -
    from post_init_success[OF that] obtain c w1 where
      "reports_init sv env (json_body req) c w1 = (Inr (InitOk r), snd (post_init sv env req w))"
      by blast
    then show ?thesis by (rule reports_init_success)
  qed
  moreover have "\<exists>body rid row.
         json_body creq = Some (JsonObject body) \<and>
         body_report_id body = Some rid \<and> rid \<noteq> [] \<and>
         fst (post_complete sv env creq w) = CompleteOk rid \<and>
         reports_table (snd (post_complete sv env creq w)) = reports_table w @ [row] \<and>
         row_id row = rid"
    if ok: "status (fst (post_complete sv env creq w)) = 201"
    using post_complete_success[OF ok] by blast
  ultimately show ?thesis by blast
qed

lemma demo_init_ok:
  "\<exists>r. fst (post_init demo_services demo_env demo_init_request initial_world) = InitOk r"
  by (simp add: demo_defs run_defs)

theorem identifier_generated_by_init_echoed_by_complete_witness:
  "(\<exists>r. fst (post_init demo_services demo_env demo_init_request initial_world) = InitOk r \<and>
        res_report_id r = ''0b5e'') \<and>
   status (fst (post_complete demo_services demo_env demo_request initial_world)) = 201 \<and>
   (\<exists>row. reports_table (snd (post_complete demo_services demo_env demo_request initial_world))
            = reports_table initial_world @ [row] \<and>
          row_id row = ''picked-by-client'')"
proof -
  note inst = identifier_generated_by_init_echoed_by_complete
      [of demo_services demo_env demo_init_request initial_world demo_request]
  from demo_init_ok obtain r where
    r: "fst (post_init demo_services demo_env demo_init_request initial_world) = InitOk r"
    by blast
  with inst have "res_report_id r = randomUUID demo_services" by blast
  then have a: "res_report_id r = ''0b5e''" by (simp add: demo_services_def)
  have ok: "status (fst (post_complete demo_services demo_env demo_request initial_world)) = 201"
    by (rule demo_complete_status)
  with inst obtain body rid row where
    b: "json_body demo_request = Some (JsonObject body)" and
    rid: "body_report_id body = Some rid" and
    t: "reports_table (snd (post_complete demo_services demo_env demo_request initial_world))
          = reports_table initial_world @ [row]" and
    i: "row_id row = rid"
    by blast
  from b have "body = demo_body" by (simp add: demo_request_def)
  with rid have "rid = ''picked-by-client''" by (simp add: demo_body_def)
  with r a ok t i show ?thesis by blast
qed


section \<open>The init handler, case by case\<close>

lemma want_simps:
  "want_microphone None = False" "want_video None = False"
  "want_microphone (Some JsonNull) = False" "want_video (Some JsonNull) = False"
  "want_microphone (Some JsonOther) = False" "want_video (Some JsonOther) = False"
  "want_microphone (Some (JsonObject b)) = truthy_flag (has_microphone b)"
  "want_video (Some (JsonObject b)) = truthy_flag (has_video b)"
  by (simp_all add: want_microphone_def want_video_def)

lemma reports_init_grants:
  assumes "reports_init sv env parsed c w = (Inr (InitOk r), w')"
  shows "\<exists>signed. data (createSignedUploadUrl sv ''reports-audio''
                      (randomUUID sv @ ''/system_audio.wav'')) = Some signed \<and>
           signedUrl signed \<noteq> [] \<and>
           res_audio_upload_url r = signedUrl signed \<and>
           res_audio_upload_token r = token signed \<and>
           res_audio_path r = randomUUID sv @ ''/system_audio.wav''"
    and "want_microphone parsed \<Longrightarrow>
           \<exists>signed. data (createSignedUploadUrl sv ''reports-audio''
                      (randomUUID sv @ ''/microphone.wav'')) = Some signed \<and>
             signedUrl signed \<noteq> [] \<and>
             res_microphone_upload_url r = Some (signedUrl signed) \<and>
             res_microphone_upload_token r = Some (token signed) \<and>
             res_microphone_path r = Some (randomUUID sv @ ''/microphone.wav'')"
    and "\<not> want_microphone parsed \<Longrightarrow>
           res_microphone_upload_url r = None \<and> res_microphone_upload_token r = None \<and>
           res_microphone_path r = None"
    and "want_video parsed \<Longrightarrow>
           \<exists>signed. data (createSignedUploadUrl sv ''reports-video''
                      (randomUUID sv @ ''/screen_recording.avi'')) = Some signed \<and>
             signedUrl signed \<noteq> [] \<and>
             res_video_upload_url r = Some (signedUrl signed) \<and>
             res_video_upload_token r = Some (token signed) \<and>
             res_video_path r = Some (randomUUID sv @ ''/screen_recording.avi'')"
    and "\<not> want_video parsed \<Longrightarrow>
           res_video_upload_url r = None \<and> res_video_upload_token r = None \<and>
           res_video_path r = None"
    and "calls w' = calls w @
           [RandomUUID (randomUUID sv),
            CreateSignedUploadUrl ''reports-audio'' (randomUUID sv @ ''/system_audio.wav'')] @
           (if want_microphone parsed
            then [CreateSignedUploadUrl ''reports-audio'' (randomUUID sv @ ''/microphone.wav'')]
            else []) @
           (if want_video parsed
            then [CreateSignedUploadUrl ''reports-video'' (randomUUID sv @ ''/screen_recording.avi'')]
            else [])"
  using assms
  by (auto simp: reports_init_def init_members_def want_microphone_def want_video_def
                 grant_failed_def truthy_flag_def record_call_def Let_def
           split: option.splits if_splits json.splits)

lemma post_init_accepted:
  assumes "SUPABASE_URL env = Some url" and "url \<noteq> []"
    and "fst (verifyToken sv (authorization req) url w) = Inr (uid, claims)"
  shows "uid \<noteq> [] \<and>
         post_init sv env req w =
           dispatch (reports_init sv env (json_body req))
             \<lparr>userId = Some uid, userPayload = Some claims\<rparr>
             (snd (verifyToken sv (authorization req) url w))"
proof -
  obtain w1 where vt: "verifyToken sv (authorization req) url w = (Inr (uid, claims), w1)"
    using assms(3) by (cases "verifyToken sv (authorization req) url w") simp
  from verifyToken_subject[OF vt] have "uid \<noteq> []" by simp
  moreover have "post_init sv env req w =
      dispatch (reports_init sv env (json_body req))
        \<lparr>userId = Some uid, userPayload = Some claims\<rparr> w1"
    unfolding post_init_def by (rule authMiddleware_accepted[OF assms(1,2) vt])
  ultimately show ?thesis using vt by simp
qed

lemma reports_init_grant_failure:
  assumes "truthy (userId c)" and "truthy (SUPABASE_URL env)"
    and "truthy (SUPABASE_SERVICE_ROLE_KEY env)"
    and "grant_failed (createSignedUploadUrl sv ''reports-audio''
             (randomUUID sv @ ''/system_audio.wav'')) \<or>
         want_microphone parsed \<and>
           grant_failed (createSignedUploadUrl sv ''reports-audio''
             (randomUUID sv @ ''/microphone.wav'')) \<or>
         want_video parsed \<and>
           grant_failed (createSignedUploadUrl sv ''reports-video''
             (randomUUID sv @ ''/screen_recording.avi''))"
  shows "\<exists>msg. fst (reports_init sv env parsed c w) = Inr (ErrorResponse 500 msg None) \<and>
           msg \<in> {''Failed to create audio upload URL'',
                  ''Failed to create microphone upload URL'',
                  ''Failed to create video upload URL''}"
  using assms
  by (auto simp: reports_init_def init_members_def want_microphone_def want_video_def Let_def
                 truthy_flag_def grant_failed_def
           split: option.splits json.splits)

lemma reports_init_unparsed:
  "reports_init sv env None c w
     = reports_init sv env (Some (JsonObject \<lparr>has_microphone = None, has_video = None\<rparr>)) c w"
  by (simp add: reports_init_def)

lemma reports_init_empty:
  assumes "truthy (userId c)" and "truthy (SUPABASE_URL env)"
    and "truthy (SUPABASE_SERVICE_ROLE_KEY env)"
    and "data (createSignedUploadUrl sv ''reports-audio''
             (randomUUID sv @ ''/system_audio.wav'')) = Some signed"
    and "\<not> grant_failed (createSignedUploadUrl sv ''reports-audio''
             (randomUUID sv @ ''/system_audio.wav''))"
  shows "reports_init sv env None c w =
           (Inr (InitOk
              \<lparr>res_report_id = randomUUID sv,
               res_audio_upload_url = signedUrl signed,
               res_audio_upload_token = token signed,
               res_audio_path = randomUUID sv @ ''/system_audio.wav'',
               res_microphone_upload_url = None, res_microphone_upload_token = None,
               res_microphone_path = None,
               res_video_upload_url = None, res_video_upload_token = None,
               res_video_path = None\<rparr>),
            record_call (CreateSignedUploadUrl ''reports-audio''
                           (randomUUID sv @ ''/system_audio.wav''))
              (record_call (RandomUUID (randomUUID sv)) w))"
  using assms
  by (simp add: reports_init_def init_members_def truthy_flag_def Let_def)

lemma reports_init_status:
  "status (fst (dispatch (reports_init sv env parsed) c w)) \<in> {200, 401, 500}"
  by (simp add: dispatch_def onError_def reports_init_def Let_def
           split: option.splits prod.splits sum.splits)

lemma authMiddleware_status:
  assumes "\<And>c w1. status (fst (next c w1)) \<in> {200, 401, 500}"
  shows "status (fst (authMiddleware sv env h next w)) \<in> {200, 401, 500}"
  using assms
  by (auto simp: authMiddleware_def split: option.splits prod.splits sum.splits thrown.splits)


section \<open>The grant bundle\<close>

text \<open>
  C4. Whenever \<^verbatim>\<open>/reports/init\<close> succeeds, the response carries the generated report
  identifier and the audio grant: the URL and the token that the storage service signed
  for the bucket \<^verbatim>\<open>reports-audio\<close> and the path \<^verbatim>\<open>{report_id}/system_audio.wav\<close>, and
  that path. If the microphone was wanted, the three microphone fields are the URL and
  the token that the storage service signed for \<^verbatim>\<open>{report_id}/microphone.wav\<close> in the
  same bucket, and that path; if not, all three are null. Likewise the three video fields,
  for \<^verbatim>\<open>{report_id}/screen_recording.avi\<close> in the bucket \<^verbatim>\<open>reports-video\<close>. So the
  microphone (video) grant is non-null if and only if the microphone (video) was wanted.
  After the verification, the handler drew one identifier and asked the storage service
  for exactly the grants of the response, in this order.
\<close>

theorem initiate_grant_bundle:
  assumes "fst (post_init sv env req w) = InitOk r"
  shows "res_report_id r = randomUUID sv \<and>
         res_audio_path r = randomUUID sv @ ''/system_audio.wav'' \<and>
         res_audio_upload_url r \<noteq> [] \<and>
         (\<exists>signed. data (createSignedUploadUrl sv ''reports-audio'' (res_audio_path r)) = Some signed \<and>
            res_audio_upload_url r = signedUrl signed \<and>
            res_audio_upload_token r = token signed) \<and>
         ((res_microphone_upload_url r \<noteq> None \<and> res_microphone_upload_token r \<noteq> None \<and>
           res_microphone_path r \<noteq> None) \<longleftrightarrow> want_microphone (json_body req)) \<and>
         ((res_microphone_upload_url r = None \<and> res_microphone_upload_token r = None \<and>
           res_microphone_path r = None) \<longleftrightarrow> \<not> want_microphone (json_body req)) \<and>
         ((res_video_upload_url r \<noteq> None \<and> res_video_upload_token r \<noteq> None \<and>
           res_video_path r \<noteq> None) \<longleftrightarrow> want_video (json_body req)) \<and>
         ((res_video_upload_url r = None \<and> res_video_upload_token r = None \<and>
           res_video_path r = None) \<longleftrightarrow> \<not> want_video (json_body req)) \<and>
         (want_microphone (json_body req) \<longrightarrow>
            (\<exists>signed. data (createSignedUploadUrl sv ''reports-audio''
                         (randomUUID sv @ ''/microphone.wav'')) = Some signed \<and>
               signedUrl signed \<noteq> [] \<and>
               res_microphone_upload_url r = Some (signedUrl signed) \<and>
               res_microphone_upload_token r = Some (token signed) \<and>
               res_microphone_path r = Some (randomUUID sv @ ''/microphone.wav''))) \<and>
         (want_video (json_body req) \<longrightarrow>
            (\<exists>signed. data (createSignedUploadUrl sv ''reports-video''
                         (randomUUID sv @ ''/screen_recording.avi'')) = Some signed \<and>
               signedUrl signed \<noteq> [] \<and>
               res_video_upload_url r = Some (signedUrl signed) \<and>
               res_video_upload_token r = Some (token signed) \<and>
               res_video_path r = Some (randomUUID sv @ ''/screen_recording.avi''))) \<and>
         (\<exists>url. SUPABASE_URL env = Some url \<and>
            calls (snd (post_init sv env req w)) =
              calls (snd (verifyToken sv (authorization req) url w)) @
              [RandomUUID (randomUUID sv),
               CreateSignedUploadUrl ''reports-audio'' (randomUUID sv @ ''/system_audio.wav'')] @
              (if want_microphone (json_body req)
               then [CreateSignedUploadUrl ''reports-audio'' (randomUUID sv @ ''/microphone.wav'')]
               else []) @
              (if want_video (json_body req)
               then [CreateSignedUploadUrl ''reports-video''
                       (randomUUID sv @ ''/screen_recording.avi'')]
               else []))"
proof -
  from post_init_success[OF assms] obtain url uid claims w1 where
    url: "SUPABASE_URL env = Some url" and
    vt: "verifyToken sv (authorization req) url w = (Inr (uid, claims), w1)" and
    ri: "reports_init sv env (json_body req) \<lparr>userId = Some uid, userPayload = Some claims\<rparr> w1
           = (Inr (InitOk r), snd (post_init sv env req w))"
    by blast
  have id: "res_report_id r = randomUUID sv"
    using reports_init_success[OF ri] by simp
  note g = reports_init_grants[OF ri]
  from g(1) have audio:
    "res_audio_path r = randomUUID sv @ ''/system_audio.wav'' \<and>
     res_audio_upload_url r \<noteq> [] \<and>
     (\<exists>signed. data (createSignedUploadUrl sv ''reports-audio'' (res_audio_path r)) = Some signed \<and>
        res_audio_upload_url r = signedUrl signed \<and>
        res_audio_upload_token r = token signed)"
    by auto
  have mic: "((res_microphone_upload_url r \<noteq> None \<and> res_microphone_upload_token r \<noteq> None \<and>
           res_microphone_path r \<noteq> None) \<longleftrightarrow> want_microphone (json_body req)) \<and>
         ((res_microphone_upload_url r = None \<and> res_microphone_upload_token r = None \<and>
           res_microphone_path r = None) \<longleftrightarrow> \<not> want_microphone (json_body req))"
    using g(2,3) by (cases "want_microphone (json_body req)") auto
  have video: "((res_video_upload_url r \<noteq> None \<and> res_video_upload_token r \<noteq> None \<and>
           res_video_path r \<noteq> None) \<longleftrightarrow> want_video (json_body req)) \<and>
         ((res_video_upload_url r = None \<and> res_video_upload_token r = None \<and>
           res_video_path r = None) \<longleftrightarrow> \<not> want_video (json_body req))"
    using g(4,5) by (cases "want_video (json_body req)") auto
  have micg: "want_microphone (json_body req) \<longrightarrow>
            (\<exists>signed. data (createSignedUploadUrl sv ''reports-audio''
                         (randomUUID sv @ ''/microphone.wav'')) = Some signed \<and>
               signedUrl signed \<noteq> [] \<and>
               res_microphone_upload_url r = Some (signedUrl signed) \<and>
               res_microphone_upload_token r = Some (token signed) \<and>
               res_microphone_path r = Some (randomUUID sv @ ''/microphone.wav''))"
    using g(2) by blast
  have videog: "want_video (json_body req) \<longrightarrow>
            (\<exists>signed. data (createSignedUploadUrl sv ''reports-video''
                         (randomUUID sv @ ''/screen_recording.avi'')) = Some signed \<and>
               signedUrl signed \<noteq> [] \<and>
               res_video_upload_url r = Some (signedUrl signed) \<and>
               res_video_upload_token r = Some (token signed) \<and>
               res_video_path r = Some (randomUUID sv @ ''/screen_recording.avi''))"
    using g(4) by blast
  have w1: "w1 = snd (verifyToken sv (authorization req) url w)" using vt by simp
  have cl: "\<exists>url. SUPABASE_URL env = Some url \<and>
            calls (snd (post_init sv env req w)) =
              calls (snd (verifyToken sv (authorization req) url w)) @
              [RandomUUID (randomUUID sv),
               CreateSignedUploadUrl ''reports-audio'' (randomUUID sv @ ''/system_audio.wav'')] @
              (if want_microphone (json_body req)
               then [CreateSignedUploadUrl ''reports-audio'' (randomUUID sv @ ''/microphone.wav'')]
               else []) @
              (if want_video (json_body req)
               then [CreateSignedUploadUrl ''reports-video''
                       (randomUUID sv @ ''/screen_recording.avi'')]
               else [])"
    using g(6) url unfolding w1 by blast
  from id audio mic video micg videog cl show ?thesis by blast
qed

theorem initiate_grant_bundle_witness:
  "\<exists>r. fst (post_init demo_services demo_env demo_init_request initial_world) = InitOk r \<and>
       res_report_id r = ''0b5e'' \<and> res_audio_path r = ''0b5e/system_audio.wav'' \<and>
       res_microphone_upload_url r = Some ''https://s/reports-audio/0b5e/microphone.wav'' \<and>
       res_microphone_upload_token r = Some ''t'' \<and>
       res_microphone_path r = Some ''0b5e/microphone.wav'' \<and>
       res_video_upload_url r = None \<and> res_video_upload_token r = None \<and>
       res_video_path r = None"
proof -
  from demo_init_ok obtain r where
    r: "fst (post_init demo_services demo_env demo_init_request initial_world) = InitOk r"
    by blast
  have m: "want_microphone (json_body demo_init_request)"
    by (simp add: demo_init_request_def want_microphone_def truthy_flag_def)
  have v: "\<not> want_video (json_body demo_init_request)"
    by (simp add: demo_init_request_def want_video_def truthy_flag_def)
  have u: "randomUUID demo_services = ''0b5e''" by (simp add: demo_services_def)
  have d: "data (createSignedUploadUrl demo_services ''reports-audio''
             (randomUUID demo_services @ ''/microphone.wav''))
           = Some \<lparr>signedUrl = ''https://s/reports-audio/0b5e/microphone.wav'', token = ''t'',
                   path = ''0b5e/microphone.wav''\<rparr>"
    by (simp add: demo_services_def demo_signed_def)
  from initiate_grant_bundle[OF r] m v u d r show ?thesis by auto
qed


section \<open>All or nothing\<close>

text \<open>
  C7. When the verifier accepts the request and a requested grant cannot be obtained
  (the audio grant, or the microphone or video grant when wanted), \<^verbatim>\<open>/reports/init\<close>
  answers 500 with one of the three grant failure messages; such a response carries no
  grant at all.
\<close>

theorem initiate_all_or_nothing:
  assumes "SUPABASE_URL env = Some url" and "url \<noteq> []"
    and "truthy (SUPABASE_SERVICE_ROLE_KEY env)"
    and "fst (verifyToken sv (authorization req) url w) = Inr (uid, claims)"
    and "grant_failed (createSignedUploadUrl sv ''reports-audio''
             (randomUUID sv @ ''/system_audio.wav'')) \<or>
         want_microphone (json_body req) \<and>
           grant_failed (createSignedUploadUrl sv ''reports-audio''
             (randomUUID sv @ ''/microphone.wav'')) \<or>
         want_video (json_body req) \<and>
           grant_failed (createSignedUploadUrl sv ''reports-video''
             (randomUUID sv @ ''/screen_recording.avi''))"
  shows "\<exists>msg. fst (post_init sv env req w) = ErrorResponse 500 msg None \<and>
           msg \<in> {''Failed to create audio upload URL'',
                  ''Failed to create microphone upload URL'',
                  ''Failed to create video upload URL''}"
proof -
  let ?w1 = "snd (verifyToken sv (authorization req) url w)"
  from post_init_accepted[OF assms(1,2,4)] have
    uid: "uid \<noteq> []" and
    pi: "post_init sv env req w =
           dispatch (reports_init sv env (json_body req))
             \<lparr>userId = Some uid, userPayload = Some claims\<rparr> ?w1"
    by simp_all
  have c: "truthy (userId \<lparr>userId = Some uid, userPayload = Some claims\<rparr>)"
    using uid by (simp add: truthy_def)
  have u: "truthy (SUPABASE_URL env)" using assms(1,2) by (simp add: truthy_def)
  from reports_init_grant_failure[OF c u assms(3) assms(5), of ?w1] obtain msg where
    m: "fst (reports_init sv env (json_body req)
               \<lparr>userId = Some uid, userPayload = Some claims\<rparr> ?w1) = Inr (ErrorResponse 500 msg None)"
       "msg \<in> {''Failed to create audio upload URL'',
                  ''Failed to create microphone upload URL'',
                  ''Failed to create video upload URL''}"
    by blast
  from m(1) have "fst (post_init sv env req w) = ErrorResponse 500 msg None"
    unfolding pi by (auto simp: dispatch_def split: prod.splits)
  with m(2) show ?thesis by blast
qed

theorem initiate_all_or_nothing_witness:
  "fst (post_init (demo_services\<lparr>createSignedUploadUrl := demo_refused\<rparr>) demo_env
          (demo_init_request\<lparr>json_body :=
             Some (JsonObject \<lparr>has_microphone = Some True, has_video = Some True\<rparr>)\<rparr>)
          initial_world)
     = ErrorResponse 500 ''Failed to create video upload URL'' None"
proof -
  let ?sv = "demo_services\<lparr>createSignedUploadUrl := demo_refused\<rparr>"
  let ?req = "demo_init_request\<lparr>json_body :=
                Some (JsonObject \<lparr>has_microphone = Some True, has_video = Some True\<rparr>)\<rparr>"
  have 1: "SUPABASE_URL demo_env = Some ''https://p.supabase.co''" by (simp add: demo_env_def)
  have 2: "''https://p.supabase.co'' \<noteq> []" by simp
  have 3: "truthy (SUPABASE_SERVICE_ROLE_KEY demo_env)" by (simp add: demo_env_def truthy_def)
  have 4: "fst (verifyToken ?sv (authorization ?req) ''https://p.supabase.co'' initial_world)
             = Inr (''user-1'', demo_claims)"
    by (simp add: demo_defs run_defs)
  have 5: "grant_failed (createSignedUploadUrl ?sv ''reports-audio''
             (randomUUID ?sv @ ''/system_audio.wav'')) \<or>
         want_microphone (json_body ?req) \<and>
           grant_failed (createSignedUploadUrl ?sv ''reports-audio''
             (randomUUID ?sv @ ''/microphone.wav'')) \<or>
         want_video (json_body ?req) \<and>
           grant_failed (createSignedUploadUrl ?sv ''reports-video''
             (randomUUID ?sv @ ''/screen_recording.avi''))"
    by (simp add: demo_defs want_video_def truthy_flag_def grant_failed_def)
  from initiate_all_or_nothing[OF 1 2 3 4 5] obtain msg where
    m: "fst (post_init ?sv demo_env ?req initial_world) = ErrorResponse 500 msg None"
    by blast
  have "fst (post_init ?sv demo_env ?req initial_world)
          = ErrorResponse 500 ''Failed to create video upload URL'' None"
    by (simp add: demo_defs run_defs)
  with m show ?thesis by simp
qed


section \<open>A body that cannot be parsed\<close>

lemma post_init_status: "status (fst (post_init sv env req w)) \<in> {200, 401, 500}"
  unfolding post_init_def by (rule authMiddleware_status) (rule reports_init_status)

text \<open>
  C10. When the body of a \<^verbatim>\<open>/reports/init\<close> request is absent or is not JSON, the
  route behaves exactly as for the empty object: same response, same state. It never
  answers 400. For an accepted request, as soon as the storage service signs the audio
  grant, the route succeeds with precisely this response: the generated identifier, the
  signed audio URL and token, the path \<^verbatim>\<open>{report_id}/system_audio.wav\<close>, and null in
  all microphone and video fields; after the verification it has drawn the identifier
  and asked the storage service for the audio grant, and for nothing else. No other
  successful response exists for such a request. \<^verbatim>\<open>/reports/complete\<close>, for the same
  accepted request without a parsable body, answers 400 with \<^verbatim>\<open>Invalid JSON body\<close>.
\<close>

theorem init_treats_unparsed_body_as_empty:
  "post_init sv env (req\<lparr>json_body := None\<rparr>) w
     = post_init sv env
         (req\<lparr>json_body := Some (JsonObject \<lparr>has_microphone = None, has_video = None\<rparr>)\<rparr>) w \<and>
   status (fst (post_init sv env (req\<lparr>json_body := None\<rparr>) w)) \<noteq> 400 \<and>
   (\<forall>r. fst (post_init sv env (req\<lparr>json_body := None\<rparr>) w) = InitOk r \<longrightarrow>
        (\<exists>signed. data (createSignedUploadUrl sv ''reports-audio''
                      (randomUUID sv @ ''/system_audio.wav'')) = Some signed \<and>
           signedUrl signed \<noteq> [] \<and>
           r = \<lparr>res_report_id = randomUUID sv,
                res_audio_upload_url = signedUrl signed,
                res_audio_upload_token = token signed,
                res_audio_path = randomUUID sv @ ''/system_audio.wav'',
                res_microphone_upload_url = None, res_microphone_upload_token = None,
                res_microphone_path = None,
                res_video_upload_url = None, res_video_upload_token = None,
                res_video_path = None\<rparr>)) \<and>
   (SUPABASE_URL env = Some url \<and> url \<noteq> [] \<and> truthy (SUPABASE_SERVICE_ROLE_KEY env) \<and>
    fst (verifyToken sv (authorization req) url w) = Inr (uid, claims) \<longrightarrow>
      (\<forall>signed.
         data (createSignedUploadUrl sv ''reports-audio''
                 (randomUUID sv @ ''/system_audio.wav'')) = Some signed \<and>
         \<not> grant_failed (createSignedUploadUrl sv ''reports-audio''
                 (randomUUID sv @ ''/system_audio.wav'')) \<longrightarrow>
         post_init sv env (req\<lparr>json_body := None\<rparr>) w =
           (InitOk
              \<lparr>res_report_id = randomUUID sv,
               res_audio_upload_url = signedUrl signed,
               res_audio_upload_token = token signed,
               res_audio_path = randomUUID sv @ ''/system_audio.wav'',
               res_microphone_upload_url = None, res_microphone_upload_token = None,
               res_microphone_path = None,
               res_video_upload_url = None, res_video_upload_token = None,
               res_video_path = None\<rparr>,
            record_call (CreateSignedUploadUrl ''reports-audio''
                           (randomUUID sv @ ''/system_audio.wav''))
              (record_call (RandomUUID (randomUUID sv))
                 (snd (verifyToken sv (authorization req) url w))))) \<and>
      fst (post_complete sv env \<lparr>authorization = authorization req, json_body = None\<rparr> w)
        = ErrorResponse 400 ''Invalid JSON body'' None)"
proof -
  let ?req = "req\<lparr>json_body := None\<rparr>"
  let ?ok = "\<lambda>signed.
              \<lparr>res_report_id = randomUUID sv,
               res_audio_upload_url = signedUrl signed,
               res_audio_upload_token = token signed,
               res_audio_path = randomUUID sv @ ''/system_audio.wav'',
               res_microphone_upload_url = None, res_microphone_upload_token = None,
               res_microphone_path = None,
               res_video_upload_url = None, res_video_upload_token = None,
               res_video_path = None\<rparr>"
  have same: "post_init sv env ?req w
     = post_init sv env
         (req\<lparr>json_body := Some (JsonObject \<lparr>has_microphone = None, has_video = None\<rparr>)\<rparr>) w"
  proof -
    have "reports_init sv env None
            = reports_init sv env (Some (JsonObject \<lparr>has_microphone = None, has_video = None\<rparr>))"
      by (intro ext) (rule reports_init_unparsed)
    then show ?thesis by (simp add: post_init_def)
  qed
  have no400: "status (fst (post_init sv env ?req w)) \<noteq> 400"
    using post_init_status[of sv env ?req w] by auto
  have nulls: "\<exists>signed. data (createSignedUploadUrl sv ''reports-audio''
                      (randomUUID sv @ ''/system_audio.wav'')) = Some signed \<and>
           signedUrl signed \<noteq> [] \<and> r = ?ok signed"
    if ok: "fst (post_init sv env ?req w) = InitOk r" for r
  proof -
    have m: "\<not> want_microphone (json_body ?req)" by (simp add: want_simps)
    have v: "\<not> want_video (json_body ?req)" by (simp add: want_simps)
    from post_init_success[OF ok] obtain c w1 where
      ri: "reports_init sv env (json_body ?req) c w1
             = (Inr (InitOk r), snd (post_init sv env ?req w))"
      by blast
    from reports_init_success[OF ri] have id: "res_report_id r = randomUUID sv" by simp
    from reports_init_grants(1)[OF ri] obtain signed where
      d: "data (createSignedUploadUrl sv ''reports-audio''
                      (randomUUID sv @ ''/system_audio.wav'')) = Some signed" and
      a: "signedUrl signed \<noteq> []" "res_audio_upload_url r = signedUrl signed"
         "res_audio_upload_token r = token signed"
         "res_audio_path r = randomUUID sv @ ''/system_audio.wav''"
      by blast
    from id a reports_init_grants(3)[OF ri m] reports_init_grants(5)[OF ri v]
    have "r = ?ok signed" by (cases r) simp
    with d a(1) show ?thesis by blast
  qed
  have auth: "(\<forall>signed.
         data (createSignedUploadUrl sv ''reports-audio''
                 (randomUUID sv @ ''/system_audio.wav'')) = Some signed \<and>
         \<not> grant_failed (createSignedUploadUrl sv ''reports-audio''
                 (randomUUID sv @ ''/system_audio.wav'')) \<longrightarrow>
         post_init sv env ?req w =
           (InitOk (?ok signed),
            record_call (CreateSignedUploadUrl ''reports-audio''
                           (randomUUID sv @ ''/system_audio.wav''))
              (record_call (RandomUUID (randomUUID sv))
                 (snd (verifyToken sv (authorization req) url w))))) \<and>
      fst (post_complete sv env \<lparr>authorization = authorization req, json_body = None\<rparr> w)
        = ErrorResponse 400 ''Invalid JSON body'' None"
    if cfg: "SUPABASE_URL env = Some url" "url \<noteq> []" "truthy (SUPABASE_SERVICE_ROLE_KEY env)"
      and vt: "fst (verifyToken sv (authorization req) url w) = Inr (uid, claims)"
  proof -
    let ?c = "\<lparr>userId = Some uid, userPayload = Some claims\<rparr>"
    let ?w1 = "snd (verifyToken sv (authorization req) url w)"
    have vt': "fst (verifyToken sv (authorization ?req) url w) = Inr (uid, claims)"
      using vt by simp
    from post_init_accepted[OF cfg(1,2) vt'] have
      uid: "uid \<noteq> []" and
      pi: "post_init sv env ?req w = dispatch (reports_init sv env None) ?c ?w1"
      by simp_all
    have c: "truthy (userId ?c)" using uid by (simp add: truthy_def)
    have u: "truthy (SUPABASE_URL env)" using cfg(1,2) by (simp add: truthy_def)
    have proceeds: "post_init sv env ?req w =
           (InitOk (?ok signed),
            record_call (CreateSignedUploadUrl ''reports-audio''
                           (randomUUID sv @ ''/system_audio.wav''))
              (record_call (RandomUUID (randomUUID sv)) ?w1))"
      if d: "data (createSignedUploadUrl sv ''reports-audio''
                 (randomUUID sv @ ''/system_audio.wav'')) = Some signed"
        and g: "\<not> grant_failed (createSignedUploadUrl sv ''reports-audio''
                 (randomUUID sv @ ''/system_audio.wav''))" for signed
      unfolding pi by (rule dispatch_Inr) (rule reports_init_empty[OF c u cfg(3) d g])
    have pcv: "fst (verifyToken sv
                 (authorization \<lparr>authorization = authorization req, json_body = None\<rparr>) url w)
               = Inr (uid, claims)"
      using vt by simp
    from post_complete_accepted[OF cfg(1,2) pcv] obtain w2 where
      pc: "post_complete sv env \<lparr>authorization = authorization req, json_body = None\<rparr> w
            = dispatch (reports_complete sv env None) ?c w2"
      by auto
    have "reports_complete sv env None ?c w2
            = (Inr (ErrorResponse 400 ''Invalid JSON body'' None), w2)"
      using uid u cfg(3) by (simp add: reports_complete_def)
    then have "fst (post_complete sv env \<lparr>authorization = authorization req, json_body = None\<rparr> w)
            = ErrorResponse 400 ''Invalid JSON body'' None"
      unfolding pc by (simp add: dispatch_Inr)
    with proceeds show ?thesis by blast
  qed
  from same no400 nulls auth show ?thesis by blast
qed

theorem init_treats_unparsed_body_as_empty_witness:
  "(\<exists>r. fst (post_init demo_services demo_env (demo_init_request\<lparr>json_body := None\<rparr>) initial_world)
          = InitOk r \<and>
        res_report_id r = ''0b5e'' \<and>
        res_audio_upload_url r = ''https://s/reports-audio/0b5e/system_audio.wav'' \<and>
        res_audio_path r = ''0b5e/system_audio.wav'' \<and>
        res_microphone_upload_url r = None \<and> res_video_upload_url r = None) \<and>
   fst (post_complete demo_services demo_env
          \<lparr>authorization = authorization demo_init_request, json_body = None\<rparr>
          (initial_world :: int world))
     = ErrorResponse 400 ''Invalid JSON body'' None"
proof -
  note inst = init_treats_unparsed_body_as_empty
    [of demo_services demo_env demo_init_request "initial_world :: int world"
        "''https://p.supabase.co''" "''user-1''" demo_claims]
  let ?signed = "\<lparr>signedUrl = ''https://s/reports-audio/0b5e/system_audio.wav'', token = ''t'',
                   path = ''0b5e/system_audio.wav''\<rparr>"
  have 1: "SUPABASE_URL demo_env = Some ''https://p.supabase.co'' \<and> ''https://p.supabase.co'' \<noteq> [] \<and>
           truthy (SUPABASE_SERVICE_ROLE_KEY demo_env)"
    by (simp add: demo_env_def truthy_def)
  have 2: "fst (verifyToken demo_services (authorization demo_init_request)
             ''https://p.supabase.co'' (initial_world :: int world)) = Inr (''user-1'', demo_claims)"
    using demo_verify by (simp add: demo_init_request_def)
  have 3: "data (createSignedUploadUrl demo_services ''reports-audio''
             (randomUUID demo_services @ ''/system_audio.wav'')) = Some ?signed \<and>
           \<not> grant_failed (createSignedUploadUrl demo_services ''reports-audio''
             (randomUUID demo_services @ ''/system_audio.wav''))"
    by (simp add: demo_defs grant_failed_def)
  have u: "randomUUID demo_services = ''0b5e''" by (simp add: demo_services_def)
  let ?W = "record_call (CreateSignedUploadUrl ''reports-audio''
                           (randomUUID demo_services @ ''/system_audio.wav''))
              (record_call (RandomUUID (randomUUID demo_services))
                 (snd (verifyToken demo_services (authorization demo_init_request)
                         ''https://p.supabase.co'' (initial_world :: int world))))"
  let ?ok = "\<lambda>signed.
              \<lparr>res_report_id = randomUUID demo_services,
               res_audio_upload_url = signedUrl signed,
               res_audio_upload_token = token signed,
               res_audio_path = randomUUID demo_services @ ''/system_audio.wav'',
               res_microphone_upload_url = None, res_microphone_upload_token = None,
               res_microphone_path = None,
               res_video_upload_url = None, res_video_upload_token = None,
               res_video_path = None\<rparr>"
  from inst 1 2 have
    k: "\<forall>signed.
         data (createSignedUploadUrl demo_services ''reports-audio''
                 (randomUUID demo_services @ ''/system_audio.wav'')) = Some signed \<and>
         \<not> grant_failed (createSignedUploadUrl demo_services ''reports-audio''
                 (randomUUID demo_services @ ''/system_audio.wav'')) \<longrightarrow>
         post_init demo_services demo_env (demo_init_request\<lparr>json_body := None\<rparr>)
           (initial_world :: int world) = (InitOk (?ok signed), ?W)"
    and b: "fst (post_complete demo_services demo_env
          \<lparr>authorization = authorization demo_init_request, json_body = None\<rparr>
          (initial_world :: int world))
     = ErrorResponse 400 ''Invalid JSON body'' None"
    by blast+
  from k 3 have "post_init demo_services demo_env (demo_init_request\<lparr>json_body := None\<rparr>)
           (initial_world :: int world) = (InitOk (?ok ?signed), ?W)"
    by blast
  then have a: "fst (post_init demo_services demo_env (demo_init_request\<lparr>json_body := None\<rparr>)
           (initial_world :: int world)) = InitOk (?ok ?signed)"
    by simp
  from a b u show ?thesis by simp
qed


section \<open>The key-set cache\<close>















section \<open>The shape of the header\<close>


lemma malformed_not_rejected: "is_MalformedCredential e \<Longrightarrow> \<not> is_CredentialRejected e"
  by (auto simp: is_MalformedCredential_def is_CredentialRejected_def)

text \<open>
  C3, as stated, fails. The header \<^verbatim>\<open>Bearer a<TAB>b\<close> has three whitespace-delimited
  parts, so it is not of the shape the claim requires. The worker splits at the space
  character only, finds the two parts \<^verbatim>\<open>Bearer\<close> and \<^verbatim>\<open>a<TAB>b\<close>, resolves the
  key set and hands the second part to the token library; the failure that follows is a
  rejected credential, not a malformed one.
\<close>

theorem tab_in_token_reaches_key_set_resolution:
  "\<not> spec_bearer_scheme (Some (''Bearer a'' @ [CHR 0x09] @ ''b'')) \<and>
   fst (verifyToken demo_services (Some (''Bearer a'' @ [CHR 0x09] @ ''b''))
          ''https://p.supabase.co'' (initial_world :: int world))
     = Inl (Error ''JWT verification failed: malformed token'') \<and>
   \<not> is_MalformedCredential (Error ''JWT verification failed: malformed token'') \<and>
   calls (snd (verifyToken demo_services (Some (''Bearer a'' @ [CHR 0x09] @ ''b''))
          ''https://p.supabase.co'' (initial_world :: int world)))
     = [CreateRemoteJWKSet ''https://p.supabase.co/auth/v1/.well-known/jwks.json'',
        JwtVerify (''a'' @ [CHR 0x09] @ ''b'')]"
  by (simp add: spec_bearer_scheme_def whitespace_def is_MalformedCredential_def
        demo_defs run_defs)

text \<open>
  C3, amended. A header that is absent, or that is not \<^verbatim>\<open>Bearer\<close>, one space character
  and then a string without any space character (which is to say: that does not split at
  its space characters into exactly two parts with the first literally \<^verbatim>\<open>Bearer\<close>),
  makes the verifier fail with one of the two malformed-credential errors and leaves the
  state as it was: no key set is resolved and the token library is not called. The
  middleware turns the failure into a 401 response.
\<close>

theorem header_without_bearer_shape_is_malformed:
  assumes "\<not> (\<exists>t. h = Some (''Bearer '' @ t) \<and> CHR '' '' \<notin> set t)"
  shows "\<exists>e. verifyToken sv h url w = (Inl e, w) \<and> is_MalformedCredential e \<and>
           (SUPABASE_URL env = Some url \<and> url \<noteq> [] \<longrightarrow>
              (\<exists>msg. authMiddleware sv env h next w = (ErrorResponse 401 msg None, w)))"
proof -
  have "\<exists>msg. verifyToken sv h url w = (Inl (Error msg), w) \<and> is_MalformedCredential (Error msg)"
  proof (cases h)
    case None
    then show ?thesis by (simp add: verifyToken_def is_MalformedCredential_def)
  next
    case (Some s)
    with assms have "\<not> (\<exists>t. s = ''Bearer '' @ t \<and> CHR '' '' \<notin> set t)" by simp
    then have "\<not> (length (split_space s) = 2 \<and> split_space s ! 0 = ''Bearer'')"
      using bearer_shape_iff[of s] by blast
    then show ?thesis using Some
      by (auto simp: verifyToken_def is_MalformedCredential_def Let_def)
  qed
  then obtain msg where v: "verifyToken sv h url w = (Inl (Error msg), w)"
    and m: "is_MalformedCredential (Error msg)" by blast
  have "authMiddleware sv env h next w = (ErrorResponse 401 msg None, w)"
    if "SUPABASE_URL env = Some url" "url \<noteq> []"
    using that v by (simp add: authMiddleware_def)
  with v m show ?thesis by blast
qed

theorem header_without_bearer_shape_is_malformed_witness:
  "verifyToken demo_services (Some ''Bearer  h.p.s'') ''https://p.supabase.co'' demo_warm
     = (Inl (Error ''Invalid Authorization header format. Expected: Bearer <token>''), demo_warm) \<and>
   authMiddleware demo_services demo_env (Some ''Bearer  h.p.s'')
       (dispatch (reports_init demo_services demo_env None)) demo_warm
     = (ErrorResponse 401 ''Invalid Authorization header format. Expected: Bearer <token>'' None,
        demo_warm)"
proof -
  have hyp: "\<not> (\<exists>t. Some ''Bearer  h.p.s'' = Some (''Bearer '' @ t) \<and> CHR '' '' \<notin> set t)"
    by auto
  from header_without_bearer_shape_is_malformed[OF hyp,
      of demo_services "''https://p.supabase.co''" demo_warm demo_env
         "dispatch (reports_init demo_services demo_env None)"]
  obtain e where
    v: "verifyToken demo_services (Some ''Bearer  h.p.s'') ''https://p.supabase.co'' demo_warm
          = (Inl e, demo_warm)" and
    a: "SUPABASE_URL demo_env = Some ''https://p.supabase.co'' \<and> ''https://p.supabase.co'' \<noteq> [] \<longrightarrow>
          (\<exists>msg. authMiddleware demo_services demo_env (Some ''Bearer  h.p.s'')
             (dispatch (reports_init demo_services demo_env None)) demo_warm
              = (ErrorResponse 401 msg None, demo_warm))"
    by blast
  have e: "fst (verifyToken demo_services (Some ''Bearer  h.p.s'') ''https://p.supabase.co'' demo_warm)
             = Inl (Error ''Invalid Authorization header format. Expected: Bearer <token>'')"
    by (simp add: verifyToken_def)
  have r: "fst (authMiddleware demo_services demo_env (Some ''Bearer  h.p.s'')
             (dispatch (reports_init demo_services demo_env None)) demo_warm)
           = ErrorResponse 401 ''Invalid Authorization header format. Expected: Bearer <token>'' None"
    by (simp add: authMiddleware_def verifyToken_def demo_env_def)
  from a obtain msg where
    am: "authMiddleware demo_services demo_env (Some ''Bearer  h.p.s'')
             (dispatch (reports_init demo_services demo_env None)) demo_warm
              = (ErrorResponse 401 msg None, demo_warm)"
    by (auto simp: demo_env_def)
  from v e am r show ?thesis by simp
qed


section \<open>Which tokens the verifier accepts\<close>




end
